theory Spec2Isabelle
  imports Main
begin

section \<open>Data model\<close>

text \<open>
  A resource quantity (\<^verbatim>\<open>kresource.Quantity\<close>) is a fixed-point decimal; the code only
  subtracts quantities (\<^verbatim>\<open>Sub\<close>, which does not clamp) and compares them (\<^verbatim>\<open>Cmp\<close>).
  Its amount is counted in the finest unit the type resolves, an unbounded integer that
  may be negative. GPU counts are \<^verbatim>\<open>int64\<close> in the source; they are only compared, never
  computed with, so they are integers here as well.
\<close>

type_synonym Amount = int

text \<open>
  The struct keeps its amount in one of two ways: in the struct itself (\<^verbatim>\<open>int64Amount\<close>),
  or in an \<^verbatim>\<open>inf.Dec\<close> object that the struct points to. Assigning a quantity copies the
  struct, so a copy of a quantity of the second kind points to the same \<^verbatim>\<open>inf.Dec\<close> as the
  original. The \<^verbatim>\<open>inf.Dec\<close> objects live in a store, addressed by natural numbers.

  Quantities that the code only reads (a request's amounts, the reservations), and the
  quantity behind \<^verbatim>\<open>maxMem\<close>, which is written only through its own pointer, are modelled
  by their amount. The configured CPU quantity is copied and the copy is written, so it
  is modelled with its representation.
\<close>

datatype Quantity = Int64Amount Amount | InfDecAmount nat

type_synonym DecStore = "nat \<Rightarrow> Amount"

definition amountOf :: "DecStore \<Rightarrow> Quantity \<Rightarrow> Amount" where
  "amountOf h q = (case q of Int64Amount v \<Rightarrow> v | InfDecAmount p \<Rightarrow> h p)"

text \<open>
  \<^verbatim>\<open>q.Sub(y)\<close> on a quantity variable \<open>q\<close>. An amount kept in the struct is replaced in
  the struct (when the 64-bit subtraction overflows, the library moves it to an
  \<^verbatim>\<open>inf.Dec\<close> that it allocates for \<open>q\<close> alone, which nothing else points to; the model
  keeps such an amount in the struct). An amount kept in an \<^verbatim>\<open>inf.Dec\<close> is replaced in
  that object, for every quantity that points to it.
\<close>

definition Sub :: "Quantity \<Rightarrow> Amount \<Rightarrow> DecStore \<Rightarrow> Quantity \<times> DecStore" where
  "Sub q y h =
     (case q of
        Int64Amount v \<Rightarrow> (Int64Amount (v - y), h)
      | InfDecAmount p \<Rightarrow> (InfDecAmount p, h(p := h p - y)))"

text \<open>
  \<^verbatim>\<open>userconfig.Compute\<close>: \<^verbatim>\<open>CPU\<close> is a value, \<^verbatim>\<open>Mem\<close> is a pointer that may be nil.
\<close>

record Compute =
  CPU :: Amount
  Mem :: "Amount option"
  GPU :: int

text \<open>
  \<^verbatim>\<open>userconfig.API\<close>, restricted to the fields the validations read.
  \<^verbatim>\<open>Endpoint\<close> (\<^verbatim>\<open>*string\<close>) and \<^verbatim>\<open>Compute\<close> (\<^verbatim>\<open>*Compute\<close>) are pointers.
\<close>

record API =
  Name :: string
  Endpoint :: "string option"
  Compute :: "Compute option"

text \<open>\<^verbatim>\<open>clusterconfig.InternalConfig\<close>: the instance metadata read by \<^verbatim>\<open>validateCompute\<close>.\<close>

record InstanceMetadata =
  CPU :: Quantity
  GPU :: int

record InternalConfig =
  InstanceMetadata :: InstanceMetadata

text \<open>
  The four package-level reservation constants (\<^verbatim>\<open>_cortexCPUReserve\<close>,
  \<^verbatim>\<open>_cortexMemReserve\<close>, \<^verbatim>\<open>_nvidiaCPUReserve\<close>, \<^verbatim>\<open>_nvidiaMemReserve\<close>) are declared
  outside the validated file; they are a parameter of the model.
\<close>

record Reserves =
  cortexCPUReserve :: Amount
  cortexMemReserve :: Amount
  nvidiaCPUReserve :: Amount
  nvidiaMemReserve :: Amount

text \<open>
  A published route is a \<^verbatim>\<open>kunstructured.Unstructured\<close> object. The code observes it
  through three calls only, so the object is modelled by what they return:
  \<^verbatim>\<open>GetLabels()\<close>, \<^verbatim>\<open>k8s.ExtractVirtualServiceGateways\<close> and
  \<^verbatim>\<open>k8s.ExtractVirtualServiceEndpoints\<close>. The two extractions may fail (\<open>Inl\<close>);
  the string sets they return are lists, the endpoints in the order \<^verbatim>\<open>range\<close> visits them.
\<close>

record VirtualService =
  GetLabels :: "string \<rightharpoonup> string"
  ExtractVirtualServiceGateways :: "string + string list"
  ExtractVirtualServiceEndpoints :: "string + string list"

text \<open>
  Errors. \<open>ErrorNoAvailableNodeComputeLimit\<close> carries the resource name and the two
  amounts whose display strings the source passes (requested, then available).
  \<open>ErrorValidateAPI\<close> is whatever \<^verbatim>\<open>spec.ValidateAPI\<close> returned, \<open>ErrorK8s\<close> whatever a
  cluster read or an extraction returned; both are opaque to the validations.
  \<open>Wrap\<close> is \<^verbatim>\<open>errors.Wrap\<close> with its context strings.
\<close>

datatype error =
    ErrorNoAPIs
  | ErrorDuplicateName "API list"
  | ErrorDuplicateEndpointInOneDeploy "API list"
  | ErrorDuplicateEndpoint string
  | ErrorNoAvailableNodeComputeLimit string int int
  | ErrorValidateAPI string
  | ErrorK8s string
  | Wrap error "string list"

text \<open>
  A Go call either returns or panics (here: a nil pointer dereference). A returned
  \<^verbatim>\<open>error\<close> is an \<open>error option\<close>, \<open>None\<close> for \<^verbatim>\<open>nil\<close>.
\<close>

datatype 'a go = Return 'a | Panic

text \<open>
  \<^verbatim>\<open>validateCompute\<close> receives two pointers, \<^verbatim>\<open>config\<close> and \<^verbatim>\<open>maxMem\<close>. The state is
  the pair of objects they point to, with the store of \<^verbatim>\<open>inf.Dec\<close> objects; every
  function that receives the pointers takes the state and returns it as the call leaves
  it.
\<close>

record state =
  config :: InternalConfig
  maxMem :: Amount
  decs :: DecStore

section \<open>Compute feasibility\<close>

text \<open>
  Lines 83 to 93 of \<^verbatim>\<open>validateCompute\<close>: \<^verbatim>\<open>maxMem.Sub\<close> writes through the pointer;
  \<^verbatim>\<open>maxCPU\<close> is a struct copy of the configured quantity, and \<^verbatim>\<open>maxCPU.Sub\<close> writes the
  copy, or the \<^verbatim>\<open>inf.Dec\<close> the copy shares with the configuration; \<^verbatim>\<open>maxGPU\<close> is a local
  integer. The result is \<open>(amount of maxCPU, maxGPU, state)\<close>, the amount being the one
  the comparison of line 95 reads.
\<close>

definition reserveCompute :: "Reserves \<Rightarrow> state \<Rightarrow> Amount \<times> int \<times> state" where
  "reserveCompute r s =
     (let s1 = s\<lparr>maxMem := maxMem s - cortexMemReserve r\<rparr>;
          maxCPU = InstanceMetadata.CPU (InstanceMetadata (config s1));
          (maxCPU1, h1) = Sub maxCPU (cortexCPUReserve r) (decs s1);
          s2 = s1\<lparr>decs := h1\<rparr>;
          maxGPU = InstanceMetadata.GPU (InstanceMetadata (config s2))
      in if maxGPU > 0
         then (let (maxCPU2, h2) = Sub maxCPU1 (nvidiaCPUReserve r) (decs s2);
                   s3 = s2\<lparr>decs := h2\<rparr>;
                   s4 = s3\<lparr>maxMem := maxMem s3 - nvidiaMemReserve r\<rparr>
               in (amountOf (decs s4) maxCPU2, maxGPU, s4))
         else (amountOf (decs s2) maxCPU1, maxGPU, s2))"

text \<open>Lines 95 to 106: the three comparisons, in the order of the source.\<close>

definition checkCompute :: "Compute \<Rightarrow> Amount \<Rightarrow> Amount \<Rightarrow> int \<Rightarrow> error option" where
  "checkCompute compute maxCPU maxMemQ maxGPU =
     (if maxCPU < Compute.CPU compute
      then Some (ErrorNoAvailableNodeComputeLimit ''CPU'' (Compute.CPU compute) maxCPU)
      else case Mem compute of
        Some m \<Rightarrow>
          if maxMemQ < m
          then Some (ErrorNoAvailableNodeComputeLimit ''Memory'' m maxMemQ)
          else if Compute.GPU compute > maxGPU
          then Some (ErrorNoAvailableNodeComputeLimit ''GPU'' (Compute.GPU compute) maxGPU)
          else None
      | None \<Rightarrow>
          if Compute.GPU compute > maxGPU
          then Some (ErrorNoAvailableNodeComputeLimit ''GPU'' (Compute.GPU compute) maxGPU)
          else None)"

text \<open>
  \<^verbatim>\<open>validateCompute\<close>: the reservations are subtracted first, then \<^verbatim>\<open>compute\<close> is
  dereferenced (a nil \<^verbatim>\<open>compute\<close> panics at line 95, after the writes).
\<close>

definition validateCompute :: "Reserves \<Rightarrow> Compute option \<Rightarrow> state \<Rightarrow> error option go \<times> state" where
  "validateCompute r compute s =
     (case reserveCompute r s of
        (maxCPU, maxGPU, s') \<Rightarrow>
          (case compute of
             None \<Rightarrow> (Panic, s')
           | Some c \<Rightarrow> (Return (checkCompute c maxCPU (maxMem s') maxGPU), s')))"

text \<open>The capacity one call of \<^verbatim>\<open>validateCompute\<close> compares a request against.\<close>

definition availableCPU :: "Reserves \<Rightarrow> state \<Rightarrow> Amount" where
  "availableCPU r s = fst (reserveCompute r s)"

definition availableGPU :: "Reserves \<Rightarrow> state \<Rightarrow> int" where
  "availableGPU r s = fst (snd (reserveCompute r s))"

definition availableMem :: "Reserves \<Rightarrow> state \<Rightarrow> Amount" where
  "availableMem r s = maxMem (snd (snd (reserveCompute r s)))"

section \<open>Endpoint collisions\<close>

text \<open>
  Modelled from the spec: \<^verbatim>\<open>s.EnsureSuffix\<close> (package \<^verbatim>\<open>pkg/lib/strings\<close>, outside the
  validated file) brings a path to its canonical trailing-slash form: the suffix is
  appended unless the string already ends with it.
\<close>

definition HasSuffix :: "string \<Rightarrow> string \<Rightarrow> bool" where
  "HasSuffix str suf =
     (length suf \<le> length str \<and> drop (length str - length suf) str = suf)"

definition EnsureSuffix :: "string \<Rightarrow> string \<Rightarrow> string" where
  "EnsureSuffix str suf = (if HasSuffix str suf then str else str @ suf)"

text \<open>
  Modelled from the spec: \<^verbatim>\<open>api.Identify()\<close> (package \<^verbatim>\<open>userconfig\<close>) names the
  request an error is attributed to; here it is the request's identity.
\<close>

definition Identify :: "API \<Rightarrow> string" where
  "Identify api = Name api"

definition ComputeKey :: string where
  "ComputeKey = ''compute''"

definition EndpointKey :: string where
  "EndpointKey = ''endpoint''"

text \<open>\<^verbatim>\<open>virtualService.GetLabels()["apiName"]\<close>: a missing key reads as the empty string.\<close>

definition apiNameLabel :: "VirtualService \<Rightarrow> string" where
  "apiNameLabel vs = (case GetLabels vs ''apiName'' of Some v \<Rightarrow> v | None \<Rightarrow> [])"

text \<open>
  The inner loop of \<^verbatim>\<open>validateEndpointCollisions\<close> (lines 124 to 128). The comparison
  dereferences \<^verbatim>\<open>api.Endpoint\<close> at every published endpoint it visits.
\<close>

fun collidesWithEndpoints :: "API \<Rightarrow> VirtualService \<Rightarrow> string list \<Rightarrow> error option go" where
  "collidesWithEndpoints api vs [] = Return None"
| "collidesWithEndpoints api vs (endpoint # rest) =
     (case Endpoint api of
        None \<Rightarrow> Panic
      | Some e \<Rightarrow>
          if EnsureSuffix endpoint ''/'' = EnsureSuffix e ''/'' \<and> apiNameLabel vs \<noteq> Name api
          then Return (Some (Wrap (ErrorDuplicateEndpoint (apiNameLabel vs))
                                  [Identify api, EndpointKey, endpoint]))
          else collidesWithEndpoints api vs rest)"

text \<open>The outer loop (lines 110 to 131).\<close>

fun validateEndpointCollisions :: "API \<Rightarrow> VirtualService list \<Rightarrow> error option go" where
  "validateEndpointCollisions api [] = Return None"
| "validateEndpointCollisions api (virtualService # rest) =
     (case ExtractVirtualServiceGateways virtualService of
        Inl err \<Rightarrow> Return (Some (ErrorK8s err))
      | Inr gateways \<Rightarrow>
          if ''apis-gateway'' \<notin> set gateways
          then validateEndpointCollisions api rest
          else (case ExtractVirtualServiceEndpoints virtualService of
                  Inl err \<Rightarrow> Return (Some (ErrorK8s err))
                | Inr endpoints \<Rightarrow>
                    (case collidesWithEndpoints api virtualService endpoints of
                       Return None \<Rightarrow> validateEndpointCollisions api rest
                     | out \<Rightarrow> out)))"

section \<open>Per-request validation against the cluster\<close>

definition ValidateK8s :: "Reserves \<Rightarrow> API \<Rightarrow> VirtualService list \<Rightarrow> state \<Rightarrow> error option go \<times> state" where
  "ValidateK8s r api virtualServices s =
     (case validateCompute r (Compute api) s of
        (Panic, s') \<Rightarrow> (Panic, s')
      | (Return (Some err), s') \<Rightarrow> (Return (Some (Wrap err [Identify api, ComputeKey])), s')
      | (Return None, s') \<Rightarrow> (validateEndpointCollisions api virtualServices, s'))"

section \<open>Duplicates inside the batch\<close>

text \<open>
  The Go maps \<^verbatim>\<open>names\<close> and \<^verbatim>\<open>endpoints\<close> are association lists, a key standing where it
  was first inserted. \<^verbatim>\<open>range\<close> over a Go map visits the keys in an order the language
  leaves open, so the loops of lines 141 to 145 and 157 to 161 return whichever group of
  more than one request they meet first: any of them. The order is an input of the model, a number that
  selects the group among those of more than one request; every number is a possible run
  and every possible run is some number.
\<close>

fun appendTo :: "(string \<times> API list) list \<Rightarrow> string \<Rightarrow> API \<Rightarrow> (string \<times> API list) list" where
  "appendTo [] k api = [(k, [api])]"
| "appendTo ((k', v) # m) k api =
     (if k' = k then (k', v @ [api]) # m else (k', v) # appendTo m k api)"

definition duplicateGroups :: "(string \<times> API list) list \<Rightarrow> API list list" where
  "duplicateGroups m = filter (\<lambda>v. length v > 1) (map snd m)"

definition rangeFirst :: "nat \<Rightarrow> (string \<times> API list) list \<Rightarrow> API list" where
  "rangeFirst n m =
     (case duplicateGroups m of
        [] \<Rightarrow> []
      | g # gs \<Rightarrow> (g # gs) ! (n mod length (g # gs)))"

fun groupNames :: "API list \<Rightarrow> (string \<times> API list) list \<Rightarrow> (string \<times> API list) list" where
  "groupNames [] names = names"
| "groupNames (api # apis) names = groupNames apis (appendTo names (Name api) api)"

definition findDuplicateNames :: "nat \<Rightarrow> API list \<Rightarrow> API list" where
  "findDuplicateNames n apis = rangeFirst n (groupNames apis [])"

text \<open>\<^verbatim>\<open>*api.Endpoint\<close> at line 154 panics on a nil endpoint.\<close>

fun groupEndpoints :: "API list \<Rightarrow> (string \<times> API list) list \<Rightarrow> (string \<times> API list) list go" where
  "groupEndpoints [] endpoints = Return endpoints"
| "groupEndpoints (api # apis) endpoints =
     (case Endpoint api of
        None \<Rightarrow> Panic
      | Some e \<Rightarrow> groupEndpoints apis (appendTo endpoints e api))"

definition findDuplicateEndpoints :: "nat \<Rightarrow> API list \<Rightarrow> API list go" where
  "findDuplicateEndpoints n apis =
     (case groupEndpoints apis [] of
        Panic \<Rightarrow> Panic
      | Return endpoints \<Rightarrow> Return (rangeFirst n endpoints))"

section \<open>Cluster state and the orchestrator\<close>

text \<open>
  Modelled from the spec: the two cluster reads behind \<^verbatim>\<open>config.K8s.ListVirtualServices\<close>
  and \<^verbatim>\<open>updateMemoryCapacityConfigMap\<close>, and \<^verbatim>\<open>parallel.RunFirstErr\<close>, are outside the
  validated file. Each read is side-effect free and yields its result or an error; the
  join surfaces the first error by completion time, so the order in which the two reads
  complete is part of the environment.
\<close>

record K8s =
  ListVirtualServices :: "string + VirtualService list"
  updateMemoryCapacityConfigMap :: "string + Amount"
  secondCompletesFirst :: bool

definition getValidationK8sResources :: "K8s \<Rightarrow> error + (VirtualService list \<times> Amount)" where
  "getValidationK8sResources k =
     (case ListVirtualServices k of
        Inl e1 \<Rightarrow>
          (case updateMemoryCapacityConfigMap k of
             Inl e2 \<Rightarrow> Inl (ErrorK8s (if secondCompletesFirst k then e2 else e1))
           | Inr _ \<Rightarrow> Inl (ErrorK8s e1))
      | Inr virtualServices \<Rightarrow>
          (case updateMemoryCapacityConfigMap k of
             Inl e2 \<Rightarrow> Inl (ErrorK8s e2)
           | Inr m \<Rightarrow> Inr (virtualServices, m)))"

text \<open>
  The package-level variables \<^verbatim>\<open>config.Cluster\<close> and \<^verbatim>\<open>config.K8s\<close>, and the
  \<^verbatim>\<open>inf.Dec\<close> objects the configuration may point to: what exists outside a validation
  call.
\<close>

record world =
  Cluster :: InternalConfig
  K8s :: K8s
  Decs :: DecStore

text \<open>
  The two \<^verbatim>\<open>range\<close> loops over the maps of duplicates: which group of duplicates each
  meets first.
\<close>

record rangeOrder =
  namesFirst :: nat
  endpointsFirst :: nat

text \<open>
  Modelled from the spec: \<^verbatim>\<open>spec.ValidateAPI\<close> is the external structural validator; it
  is a parameter, a function of the request and the project files that answers with an
  error or with none and leaves the request as it is.
\<close>

type_synonym ProjectFiles = "string \<rightharpoonup> string"

type_synonym StructuralValidator = "API \<Rightarrow> ProjectFiles \<Rightarrow> string option"

text \<open>The loop of lines 44 to 51.\<close>

fun validateEach :: "StructuralValidator \<Rightarrow> Reserves \<Rightarrow> ProjectFiles \<Rightarrow> VirtualService list
    \<Rightarrow> API list \<Rightarrow> state \<Rightarrow> error option go \<times> state" where
  "validateEach ValidateAPI r projectFileMap virtualServices [] s = (Return None, s)"
| "validateEach ValidateAPI r projectFileMap virtualServices (api # apis) s =
     (case ValidateAPI api projectFileMap of
        Some err \<Rightarrow> (Return (Some (ErrorValidateAPI err)), s)
      | None \<Rightarrow>
          (case ValidateK8s r api virtualServices s of
             (Return None, s') \<Rightarrow> validateEach ValidateAPI r projectFileMap virtualServices apis s'
           | (out, s') \<Rightarrow> (out, s')))"

text \<open>Lines 53 to 63: the name pass, then the route pass.\<close>

definition checkDuplicates :: "rangeOrder \<Rightarrow> API list \<Rightarrow> error option go" where
  "checkDuplicates ord apis =
     (let dups = findDuplicateNames (namesFirst ord) apis
      in if length dups > 0 then Return (Some (ErrorDuplicateName dups))
         else (case findDuplicateEndpoints (endpointsFirst ord) apis of
                 Panic \<Rightarrow> Panic
               | Return dups' \<Rightarrow>
                   if length dups' > 0
                   then Return (Some (ErrorDuplicateEndpointInOneDeploy dups'))
                   else Return None))"

definition ValidateClusterAPIs :: "StructuralValidator \<Rightarrow> Reserves \<Rightarrow> rangeOrder \<Rightarrow> API list
    \<Rightarrow> ProjectFiles \<Rightarrow> world \<Rightarrow> error option go \<times> world" where
  "ValidateClusterAPIs ValidateAPI r ord apis projectFileMap w =
     (if length apis = 0 then (Return (Some ErrorNoAPIs), w)
      else case getValidationK8sResources (K8s w) of
        Inl err \<Rightarrow> (Return (Some err), w)
      | Inr (virtualServices, m) \<Rightarrow>
          (case validateEach ValidateAPI r projectFileMap virtualServices apis
                  \<lparr>config = Cluster w, maxMem = m, decs = Decs w\<rparr> of
             (Return None, s') \<Rightarrow>
               (checkDuplicates ord apis, w\<lparr>Cluster := config s', Decs := decs s'\<rparr>)
           | (out, s') \<Rightarrow> (out, w\<lparr>Cluster := config s', Decs := decs s'\<rparr>)))"

section \<open>Notions used by the properties\<close>

text \<open>
  What one call of \<^verbatim>\<open>validateCompute\<close> subtracts from the quantity behind \<^verbatim>\<open>maxMem\<close>, and
  from its copy of the configured CPU quantity.
\<close>

definition memReserved :: "Reserves \<Rightarrow> InternalConfig \<Rightarrow> Amount" where
  "memReserved r c =
     cortexMemReserve r +
       (if 0 < InstanceMetadata.GPU (InstanceMetadata c) then nvidiaMemReserve r else 0)"

definition cpuReserved :: "Reserves \<Rightarrow> InternalConfig \<Rightarrow> Amount" where
  "cpuReserved r c =
     cortexCPUReserve r +
       (if 0 < InstanceMetadata.GPU (InstanceMetadata c) then nvidiaCPUReserve r else 0)"

text \<open>
  The state one call of \<^verbatim>\<open>validateCompute\<close> leaves, and the state the loop has reached
  when \<open>n\<close> requests have gone through it.
\<close>

definition reserved :: "Reserves \<Rightarrow> state \<Rightarrow> state" where
  "reserved r s = snd (snd (reserveCompute r s))"

definition afterRequests :: "Reserves \<Rightarrow> nat \<Rightarrow> state \<Rightarrow> state" where
  "afterRequests r n s = (reserved r ^^ n) s"

text \<open>The state the loop starts from: the configuration and the fetched memory capacity.\<close>

definition fetched :: "world \<Rightarrow> Amount \<Rightarrow> state" where
  "fetched w m = \<lparr>config = Cluster w, maxMem = m, decs = Decs w\<rparr>"


text \<open>The collision error: a route owned by another API.\<close>

fun isErrorDuplicateEndpoint :: "error option go \<Rightarrow> bool" where
  "isErrorDuplicateEndpoint (Return (Some (Wrap (ErrorDuplicateEndpoint owner) ctx))) = True"
| "isErrorDuplicateEndpoint out = False"

text \<open>
  The collision condition in the words of the specification: the published route is on the
  ingress gateway, one of its paths equals the request's route once both are in trailing-slash
  form, and its owner is not the request's identity.
\<close>

definition onGateway :: "VirtualService \<Rightarrow> bool" where
  "onGateway vs =
     (case ExtractVirtualServiceGateways vs of
        Inl err \<Rightarrow> False
      | Inr gateways \<Rightarrow> ''apis-gateway'' \<in> set gateways)"

definition publishedPaths :: "VirtualService \<Rightarrow> string list" where
  "publishedPaths vs =
     (case ExtractVirtualServiceEndpoints vs of Inl err \<Rightarrow> [] | Inr endpoints \<Rightarrow> endpoints)"

definition ownedByOther :: "API \<Rightarrow> VirtualService \<Rightarrow> bool" where
  "ownedByOther api vs =
     (case Endpoint api of
        None \<Rightarrow> False
      | Some route \<Rightarrow>
          onGateway vs \<and>
          (\<exists>path \<in> set (publishedPaths vs). EnsureSuffix path ''/'' = EnsureSuffix route ''/'') \<and>
          apiNameLabel vs \<noteq> Name api)"

text \<open>
  A published route the code can read: its gateways extract, and so do its endpoints when
  it is on the ingress gateway (the only case in which the code extracts them).
\<close>

definition readable :: "VirtualService \<Rightarrow> bool" where
  "readable vs =
     (case ExtractVirtualServiceGateways vs of
        Inl err \<Rightarrow> False
      | Inr gateways \<Rightarrow>
          (case ExtractVirtualServiceEndpoints vs of
             Inl err \<Rightarrow> ''apis-gateway'' \<notin> set gateways
           | Inr endpoints \<Rightarrow> True))"

section \<open>Example inputs\<close>

text \<open>
  An instance class of 4 CPUs (in thousandths) and 8192 units of memory, a platform
  reservation of 500 and 512, a device-plugin reservation of 100 and 100. The configured
  CPU quantity keeps its amount in the struct.
\<close>

definition exReserves :: Reserves where
  "exReserves = \<lparr>cortexCPUReserve = 500, cortexMemReserve = 512,
                  nvidiaCPUReserve = 100, nvidiaMemReserve = 100\<rparr>"

definition exConfig :: "int \<Rightarrow> InternalConfig" where
  "exConfig g = \<lparr>InstanceMetadata = \<lparr>CPU = Int64Amount 4000, GPU = g\<rparr>\<rparr>"

definition exState :: "int \<Rightarrow> state" where
  "exState g = \<lparr>config = exConfig g, maxMem = 8192, decs = (\<lambda>p. 0)\<rparr>"

definition exCompute :: "int \<Rightarrow> int option \<Rightarrow> int \<Rightarrow> Compute" where
  "exCompute c m g = \<lparr>Compute.CPU = c, Mem = m, Compute.GPU = g\<rparr>"

definition exAPI :: "string \<Rightarrow> string option \<Rightarrow> Compute \<Rightarrow> API" where
  "exAPI n e c = \<lparr>Name = n, Endpoint = e, Compute = Some c\<rparr>"

definition exRoute :: "string \<Rightarrow> string \<Rightarrow> VirtualService" where
  "exRoute owner path =
     \<lparr>GetLabels = [''apiName'' \<mapsto> owner],
      ExtractVirtualServiceGateways = Inr [''apis-gateway''],
      ExtractVirtualServiceEndpoints = Inr [path]\<rparr>"

definition exK8s :: K8s where
  "exK8s = \<lparr>ListVirtualServices = Inr [exRoute ''a'' ''/x''],
            updateMemoryCapacityConfigMap = Inr 8192,
            secondCompletesFirst = False\<rparr>"

definition exWorld :: world where
  "exWorld = \<lparr>Cluster = exConfig 0, K8s = exK8s, Decs = (\<lambda>p. 0)\<rparr>"

text \<open>
  The same instance class, the configured CPU quantity keeping its amount in the
  \<^verbatim>\<open>inf.Dec\<close> at address 0.
\<close>

definition exDecWorld :: world where
  "exDecWorld =
     \<lparr>Cluster = \<lparr>InstanceMetadata = \<lparr>CPU = InfDecAmount 0, GPU = 0\<rparr>\<rparr>,
      K8s = exK8s,
      Decs = (\<lambda>p. 0)(0 := 4000)\<rparr>"

definition exOrder :: rangeOrder where
  "exOrder = \<lparr>namesFirst = 0, endpointsFirst = 0\<rparr>"

definition exValidateAPI :: StructuralValidator where
  "exValidateAPI api projectFileMap = (if Name api = [] then Some ''name is empty'' else None)"

text \<open>
  Two requests that each ask for exactly the memory one call leaves available, two small
  requests that share a route, a request that asks for a published route of another
  owner, one whose CPU request exceeds the instance, and one without a name.
\<close>

definition exA :: API where
  "exA = exAPI ''a'' (Some ''/x/'') (exCompute 1000 (Some 7680) 0)"

definition exB :: API where
  "exB = exAPI ''b'' (Some ''/y'') (exCompute 1000 (Some 7680) 0)"

definition exC :: API where
  "exC = exAPI ''c'' (Some ''/z'') (exCompute 1000 None 0)"

definition exD :: API where
  "exD = exAPI ''d'' (Some ''/z'') (exCompute 1000 None 0)"

definition exTaken :: API where
  "exTaken = exAPI ''e'' (Some ''/x'') (exCompute 1000 None 0)"

definition exBad :: API where
  "exBad = exAPI ''bad'' (Some ''/w'') (exCompute 9000 None 0)"

definition exNameless :: API where
  "exNameless = exAPI [] (Some ''/v'') (exCompute 1000 None 0)"

lemmas ex_defs =
  exWorld_def exDecWorld_def exK8s_def exOrder_def exValidateAPI_def exA_def exB_def exC_def
  exD_def exTaken_def exBad_def exNameless_def exAPI_def exCompute_def exReserves_def
  exConfig_def exRoute_def exState_def

lemmas run_defs =
  ValidateClusterAPIs_def getValidationK8sResources_def ValidateK8s_def validateCompute_def
  reserveCompute_def Sub_def amountOf_def checkCompute_def checkDuplicates_def
  findDuplicateNames_def findDuplicateEndpoints_def rangeFirst_def duplicateGroups_def
  EnsureSuffix_def HasSuffix_def apiNameLabel_def Identify_def ComputeKey_def EndpointKey_def
  memReserved_def cpuReserved_def reserved_def afterRequests_def fetched_def

section \<open>Properties of the feasibility check\<close>

lemma validateCompute_result:
  "validateCompute r (Some c) s =
     (Return (checkCompute c (availableCPU r s) (availableMem r s) (availableGPU r s)),
      snd (snd (reserveCompute r s)))"
  by (simp add: validateCompute_def availableCPU_def availableMem_def availableGPU_def
      split: prod.splits)

lemma ex_available:
  "availableCPU exReserves (exState 0) = 3500"
  "availableMem exReserves (exState 0) = 7680"
  "availableGPU exReserves (exState 0) = 0"
  "availableCPU exReserves (exState 1) = 3400"
  "availableMem exReserves (exState 1) = 7580"
  "availableGPU exReserves (exState 1) = 1"
  by (simp_all add: availableCPU_def availableMem_def availableGPU_def reserveCompute_def
      Sub_def amountOf_def exReserves_def exState_def exConfig_def)

text \<open>
  C2. One call of the feasibility check passes exactly when no requested amount exceeds
  the available amount: the CPU request is at most the available CPU, the memory request,
  when there is one, is at most the available memory, and the GPU request is at most the
  available GPU count. A request equal to the available capacity passes, and a request
  without a memory amount never fails on memory.
\<close>

theorem validateCompute_inclusive_boundary:
  "(fst (validateCompute r (Some c) s) = Return None \<longleftrightarrow>
      Compute.CPU c \<le> availableCPU r s \<and>
      (\<forall>m. Mem c = Some m \<longrightarrow> m \<le> availableMem r s) \<and>
      Compute.GPU c \<le> availableGPU r s) \<and>
   (Compute.CPU c = availableCPU r s \<and> Mem c = Some (availableMem r s) \<and>
      Compute.GPU c = availableGPU r s \<longrightarrow>
      fst (validateCompute r (Some c) s) = Return None) \<and>
   (Mem c = None \<longrightarrow>
      (\<forall>req avail. fst (validateCompute r (Some c) s) \<noteq>
         Return (Some (ErrorNoAvailableNodeComputeLimit ''Memory'' req avail))))"
  by (auto simp add: validateCompute_result checkCompute_def split: option.splits)

theorem validateCompute_inclusive_boundary_witness:
  "Compute.CPU (exCompute 3500 (Some 7680) 0) = availableCPU exReserves (exState 0) \<and>
   Mem (exCompute 3500 (Some 7680) 0) = Some (availableMem exReserves (exState 0)) \<and>
   Compute.GPU (exCompute 3500 (Some 7680) 0) = availableGPU exReserves (exState 0) \<and>
   fst (validateCompute exReserves (Some (exCompute 3500 (Some 7680) 0)) (exState 0)) = Return None"
proof -
  have h: "Compute.CPU (exCompute 3500 (Some 7680) 0) = availableCPU exReserves (exState 0) \<and>
      Mem (exCompute 3500 (Some 7680) 0) = Some (availableMem exReserves (exState 0)) \<and>
      Compute.GPU (exCompute 3500 (Some 7680) 0) = availableGPU exReserves (exState 0)"
    by (simp add: ex_available exCompute_def)
  show ?thesis
    using h validateCompute_inclusive_boundary
      [of exReserves "exCompute 3500 (Some 7680) 0" "exState 0"]
    by blast
qed

text \<open>
  C3. The first violated resource is the one reported, in the order CPU, memory, GPU: a
  CPU request above the available CPU yields the CPU error whatever the memory and GPU
  requests are; with the CPU request within bounds, a memory request above the available
  memory yields the memory error whatever the GPU request is; the GPU error is reported
  only when the first two comparisons pass.
\<close>

theorem validateCompute_first_violation:
  "(availableCPU r s < Compute.CPU c \<longrightarrow>
      fst (validateCompute r (Some c) s) =
        Return (Some (ErrorNoAvailableNodeComputeLimit ''CPU'' (Compute.CPU c) (availableCPU r s)))) \<and>
   (Compute.CPU c \<le> availableCPU r s \<and> Mem c = Some m \<and> availableMem r s < m \<longrightarrow>
      fst (validateCompute r (Some c) s) =
        Return (Some (ErrorNoAvailableNodeComputeLimit ''Memory'' m (availableMem r s)))) \<and>
   (Compute.CPU c \<le> availableCPU r s \<and> (\<forall>m. Mem c = Some m \<longrightarrow> m \<le> availableMem r s) \<and>
      availableGPU r s < Compute.GPU c \<longrightarrow>
      fst (validateCompute r (Some c) s) =
        Return (Some (ErrorNoAvailableNodeComputeLimit ''GPU'' (Compute.GPU c) (availableGPU r s))))"
  by (auto simp add: validateCompute_result checkCompute_def split: option.splits)

theorem validateCompute_first_violation_witness:
  "availableCPU exReserves (exState 0) < Compute.CPU (exCompute 3600 (Some 9000) 5) \<and>
   availableMem exReserves (exState 0) < 9000 \<and>
   availableGPU exReserves (exState 0) < Compute.GPU (exCompute 3600 (Some 9000) 5) \<and>
   fst (validateCompute exReserves (Some (exCompute 3600 (Some 9000) 5)) (exState 0)) =
     Return (Some (ErrorNoAvailableNodeComputeLimit ''CPU'' 3600 3500))"
proof -
  have h: "availableCPU exReserves (exState 0) < Compute.CPU (exCompute 3600 (Some 9000) 5)"
    by (simp add: ex_available exCompute_def)
  have "fst (validateCompute exReserves (Some (exCompute 3600 (Some 9000) 5)) (exState 0)) =
      Return (Some (ErrorNoAvailableNodeComputeLimit ''CPU''
        (Compute.CPU (exCompute 3600 (Some 9000) 5)) (availableCPU exReserves (exState 0))))"
    using h validateCompute_first_violation
      [of exReserves "exState 0" "exCompute 3600 (Some 9000) 5"]
    by blast
  then show ?thesis
    by (simp add: ex_available exCompute_def)
qed

text \<open>
  C4. The device-plugin reservation is taken from the available CPU and the available
  memory exactly when the raw GPU capacity is positive; the available GPU count is the
  raw GPU capacity itself.
\<close>

theorem reserveCompute_gpu_reservation:
  "availableCPU r s =
     amountOf (decs s) (InstanceMetadata.CPU (InstanceMetadata (config s))) - cortexCPUReserve r
       - (if 0 < InstanceMetadata.GPU (InstanceMetadata (config s)) then nvidiaCPUReserve r else 0) \<and>
   availableMem r s =
     maxMem s - cortexMemReserve r
       - (if 0 < InstanceMetadata.GPU (InstanceMetadata (config s)) then nvidiaMemReserve r else 0) \<and>
   availableGPU r s = InstanceMetadata.GPU (InstanceMetadata (config s))"
  by (cases "InstanceMetadata.CPU (InstanceMetadata (config s))")
     (simp_all add: availableCPU_def availableMem_def availableGPU_def reserveCompute_def
        Sub_def amountOf_def Let_def)

theorem reserveCompute_gpu_reservation_witness:
  "availableCPU exReserves (exState 0) = 4000 - 500 \<and>
   availableCPU exReserves (exState 1) = 4000 - 500 - 100 \<and>
   availableMem exReserves (exState 0) = 8192 - 512 \<and>
   availableMem exReserves (exState 1) = 8192 - 512 - 100 \<and>
   availableGPU exReserves (exState 0) = 0 \<and>
   availableGPU exReserves (exState 1) = 1"
  using reserveCompute_gpu_reservation [of exReserves "exState 0"]
    reserveCompute_gpu_reservation [of exReserves "exState 1"]
  by (simp add: exReserves_def exState_def exConfig_def amountOf_def)

section \<open>Properties of the state\<close>

lemma reserved_config:
  "config (reserved r s) = config s"
  by (cases "InstanceMetadata.CPU (InstanceMetadata (config s))")
     (simp_all add: reserved_def reserveCompute_def Sub_def Let_def)


lemma reserved_decs:
  "decs (reserved r s) =
     (case InstanceMetadata.CPU (InstanceMetadata (config s)) of
        Int64Amount v \<Rightarrow> decs s
      | InfDecAmount p \<Rightarrow> (decs s)(p := decs s p - cpuReserved r (config s)))"
  by (cases "InstanceMetadata.CPU (InstanceMetadata (config s))")
     (auto simp add: reserved_def reserveCompute_def Sub_def Let_def cpuReserved_def)


lemma validateCompute_state:
  "snd (validateCompute r c s) = reserved r s"
  by (cases "reserveCompute r s")
     (simp add: validateCompute_def reserved_def split: option.splits)

lemma ValidateK8s_state:
  "snd (ValidateK8s r api vss s) = reserved r s"
  using validateCompute_state [of r "Compute api" s]
  by (cases "validateCompute r (Compute api) s")
     (simp add: ValidateK8s_def split: go.splits option.splits)


lemma validateEach_Cons_pass:
  "V a pfm = None \<Longrightarrow> fst (ValidateK8s r a vss s) = Return None \<Longrightarrow>
   validateEach V r pfm vss (a # apis) s = validateEach V r pfm vss apis (reserved r s)"
  using ValidateK8s_state [of r a vss s]
  by (cases "ValidateK8s r a vss s") simp



























section \<open>Properties of the duplicate passes\<close>

lemma rangeFirst_empty:
  "rangeFirst n m = [] \<longleftrightarrow> duplicateGroups m = []"
proof (cases "duplicateGroups m")
  case Nil
  then show ?thesis by (simp add: rangeFirst_def)
next
  case (Cons g gs)
  have "(g # gs) ! (n mod length (g # gs)) \<in> set (duplicateGroups m)"
    using Cons by (metis length_greater_0_conv list.distinct(1) mod_less_divisor nth_mem)
  then have "1 < length ((g # gs) ! (n mod length (g # gs)))"
    by (simp add: duplicateGroups_def)
  then show ?thesis
    using Cons by (auto simp add: rangeFirst_def)
qed

lemma rangeFirst_member:
  "rangeFirst n m \<noteq> [] \<Longrightarrow> rangeFirst n m \<in> set (duplicateGroups m)"
proof (cases "duplicateGroups m")
  case Nil
  assume "rangeFirst n m \<noteq> []"
  with Nil show ?thesis by (simp add: rangeFirst_def)
next
  case (Cons g gs)
  have "(g # gs) ! (n mod length (g # gs)) \<in> set (g # gs)"
    by (metis length_greater_0_conv list.distinct(1) mod_less_divisor nth_mem)
  then show ?thesis
    using Cons by (simp add: rangeFirst_def)
qed

lemma rangeFirst_any:
  assumes "g \<in> set (duplicateGroups m)"
  shows "\<exists>n. rangeFirst n m = g"
proof -
  from assms obtain i where i: "i < length (duplicateGroups m)" and g: "duplicateGroups m ! i = g"
    by (auto simp add: in_set_conv_nth)
  then have "rangeFirst i m = g"
    by (cases "duplicateGroups m") (simp_all add: rangeFirst_def)
  then show ?thesis ..
qed

lemma findDuplicateNames_empty_any_order:
  "findDuplicateNames n apis = [] \<longleftrightarrow> findDuplicateNames n' apis = []"
  by (simp add: findDuplicateNames_def rangeFirst_empty)

section \<open>Properties of the collision check\<close>

lemma collidesWithEndpoints_Some:
  "Endpoint api = Some route \<Longrightarrow>
   collidesWithEndpoints api vs eps =
     (if (\<exists>p \<in> set eps. EnsureSuffix p ''/'' = EnsureSuffix route ''/'') \<and> apiNameLabel vs \<noteq> Name api
      then Return (Some (Wrap (ErrorDuplicateEndpoint (apiNameLabel vs))
             [Identify api, EndpointKey,
              hd (filter (\<lambda>p. EnsureSuffix p ''/'' = EnsureSuffix route ''/'') eps)]))
      else Return None)"
  by (induction eps) auto

lemma collidesWithEndpoints_None:
  "Endpoint api = None \<Longrightarrow>
   collidesWithEndpoints api vs eps = (if eps = [] then Return None else Panic)"
  by (cases eps) auto

lemma collidesWithEndpoints_Panic:
  "collidesWithEndpoints api vs eps = Panic \<Longrightarrow> Endpoint api = None"
  by (cases "Endpoint api") (simp_all add: collidesWithEndpoints_Some split: if_splits)

lemma collidesWithEndpoints_cases:
  "collidesWithEndpoints api vs eps = Return None \<or>
   collidesWithEndpoints api vs eps = Panic \<or>
   isErrorDuplicateEndpoint (collidesWithEndpoints api vs eps)"
  by (cases "Endpoint api")
     (auto simp add: collidesWithEndpoints_Some collidesWithEndpoints_None)

lemma collidesWithEndpoints_owned:
  "ExtractVirtualServiceGateways vs = Inr gs \<Longrightarrow> ''apis-gateway'' \<in> set gs \<Longrightarrow>
   ExtractVirtualServiceEndpoints vs = Inr eps \<Longrightarrow>
   isErrorDuplicateEndpoint (collidesWithEndpoints api vs eps) = ownedByOther api vs"
  by (cases "Endpoint api")
     (auto simp add: collidesWithEndpoints_Some collidesWithEndpoints_None ownedByOther_def
        onGateway_def publishedPaths_def)

lemma validateEndpointCollisions_owned:
  "\<forall>vs \<in> set vss. readable vs \<Longrightarrow>
   isErrorDuplicateEndpoint (validateEndpointCollisions api vss) = (\<exists>vs \<in> set vss. ownedByOther api vs)"
proof (induction vss)
  case Nil
  show ?case by simp
next
  case (Cons vs vss)
  then have IH: "isErrorDuplicateEndpoint (validateEndpointCollisions api vss) =
      (\<exists>vs \<in> set vss. ownedByOther api vs)"
    and r: "readable vs" by simp_all
  from r obtain gs where gs: "ExtractVirtualServiceGateways vs = Inr gs"
    by (auto simp add: readable_def split: sum.splits)
  show ?case
  proof (cases "''apis-gateway'' \<in> set gs")
    case False
    then have "\<not> ownedByOther api vs"
      using gs by (simp add: ownedByOther_def onGateway_def split: option.splits)
    then show ?thesis using False gs IH by simp
  next
    case True
    with r gs obtain eps where eps: "ExtractVirtualServiceEndpoints vs = Inr eps"
      by (auto simp add: readable_def split: sum.splits)
    have d: "isErrorDuplicateEndpoint (collidesWithEndpoints api vs eps) = ownedByOther api vs"
      using collidesWithEndpoints_owned [OF gs True eps] .
    show ?thesis
    proof (cases "ownedByOther api vs")
      case owned: True
      then obtain owner ctx where
        "collidesWithEndpoints api vs eps = Return (Some (Wrap (ErrorDuplicateEndpoint owner) ctx))"
        using d by (cases "collidesWithEndpoints api vs eps" rule: isErrorDuplicateEndpoint.cases) auto
      then show ?thesis using owned gs True eps by simp
    next
      case False
      then have "\<not> isErrorDuplicateEndpoint (collidesWithEndpoints api vs eps)"
        using d by simp
      with collidesWithEndpoints_cases [of api vs eps]
      have "collidesWithEndpoints api vs eps = Return None \<or>
          collidesWithEndpoints api vs eps = Panic"
        by blast
      then show ?thesis
      proof
        assume "collidesWithEndpoints api vs eps = Return None"
        then show ?thesis
          using False gs True eps IH by simp
      next
        assume p: "collidesWithEndpoints api vs eps = Panic"
        then have "Endpoint api = None"
          by (rule collidesWithEndpoints_Panic)
        then have "\<forall>v. \<not> ownedByOther api v"
          by (simp add: ownedByOther_def)
        then show ?thesis
          using p gs True eps by simp
      qed
    qed
  qed
qed

lemma validateEndpointCollisions_cases:
  "\<forall>vs \<in> set vss. readable vs \<Longrightarrow>
   validateEndpointCollisions api vss = Return None \<or>
   validateEndpointCollisions api vss = Panic \<or>
   isErrorDuplicateEndpoint (validateEndpointCollisions api vss)"
proof (induction vss)
  case Nil
  show ?case by simp
next
  case (Cons vs vss)
  then have IH: "validateEndpointCollisions api vss = Return None \<or>
      validateEndpointCollisions api vss = Panic \<or>
      isErrorDuplicateEndpoint (validateEndpointCollisions api vss)"
    and r: "readable vs" by simp_all
  from r obtain gs where gs: "ExtractVirtualServiceGateways vs = Inr gs"
    by (auto simp add: readable_def split: sum.splits)
  show ?case
  proof (cases "''apis-gateway'' \<in> set gs")
    case False
    then show ?thesis using gs IH by simp
  next
    case True
    with r gs obtain eps where eps: "ExtractVirtualServiceEndpoints vs = Inr eps"
      by (auto simp add: readable_def split: sum.splits)
    show ?thesis
      using collidesWithEndpoints_cases [of api vs eps] gs True eps IH
      by (cases "collidesWithEndpoints api vs eps" rule: isErrorDuplicateEndpoint.cases) auto
  qed
qed

lemma EnsureSuffix_idem:
  "EnsureSuffix (EnsureSuffix p suf) suf = EnsureSuffix p suf"
  by (simp add: EnsureSuffix_def HasSuffix_def)

text \<open>
  C5. Against published routes the code can read, the collision check fails with the
  route-owned-by-another error exactly when some published route on the ingress gateway
  has a path equal to the request's route, both in trailing-slash form, and an owner
  other than the request's identity; it returns no other error. A match with the
  request's own identity passes. The trailing-slash form of a path is a fixed point of
  the normalisation, and a path without the slash has the same form as the path with it.
\<close>

theorem validateEndpointCollisions_owned_by_other:
  assumes "\<forall>vs \<in> set vss. readable vs"
  shows "(isErrorDuplicateEndpoint (validateEndpointCollisions api vss) \<longleftrightarrow>
            (\<exists>vs \<in> set vss. ownedByOther api vs)) \<and>
         (validateEndpointCollisions api vss = Return None \<or>
          validateEndpointCollisions api vss = Panic \<or>
          isErrorDuplicateEndpoint (validateEndpointCollisions api vss)) \<and>
         EnsureSuffix (EnsureSuffix path ''/'') ''/'' = EnsureSuffix path ''/'' \<and>
         (\<not> HasSuffix path ''/'' \<longrightarrow>
            EnsureSuffix path ''/'' = EnsureSuffix (path @ ''/'') ''/'')"
  using validateEndpointCollisions_owned [OF assms, of api]
    validateEndpointCollisions_cases [OF assms, of api] EnsureSuffix_idem [of path "''/''"]
  by (simp add: EnsureSuffix_def HasSuffix_def)

lemma ex_readable: "\<forall>vs \<in> set [exRoute ''a'' ''/x'']. readable vs"
  by (simp add: readable_def exRoute_def)

theorem validateEndpointCollisions_owned_by_other_witness:
  "ownedByOther (exAPI ''b'' (Some ''/x/'') (exCompute 1000 None 0)) (exRoute ''a'' ''/x'') \<and>
   isErrorDuplicateEndpoint
     (validateEndpointCollisions (exAPI ''b'' (Some ''/x/'') (exCompute 1000 None 0))
        [exRoute ''a'' ''/x'']) \<and>
   \<not> ownedByOther (exAPI ''a'' (Some ''/x/'') (exCompute 1000 None 0)) (exRoute ''a'' ''/x'') \<and>
   \<not> isErrorDuplicateEndpoint
     (validateEndpointCollisions (exAPI ''a'' (Some ''/x/'') (exCompute 1000 None 0))
        [exRoute ''a'' ''/x'']) \<and>
   \<not> HasSuffix ''/x'' ''/'' \<and>
   EnsureSuffix ''/x'' ''/'' = EnsureSuffix (''/x'' @ ''/'') ''/''"
proof -
  have b: "ownedByOther (exAPI ''b'' (Some ''/x/'') (exCompute 1000 None 0)) (exRoute ''a'' ''/x'')"
    by (simp add: ownedByOther_def onGateway_def publishedPaths_def exAPI_def exRoute_def
        apiNameLabel_def EnsureSuffix_def HasSuffix_def)
  have a: "\<not> ownedByOther (exAPI ''a'' (Some ''/x/'') (exCompute 1000 None 0)) (exRoute ''a'' ''/x'')"
    by (simp add: ownedByOther_def onGateway_def publishedPaths_def exAPI_def exRoute_def
        apiNameLabel_def EnsureSuffix_def HasSuffix_def)
  have n: "\<not> HasSuffix ''/x'' ''/''"
    by (simp add: HasSuffix_def)
  show ?thesis
    using a b n
      validateEndpointCollisions_owned_by_other [OF ex_readable,
        of "exAPI ''b'' (Some ''/x/'') (exCompute 1000 None 0)" "''/x''"]
      validateEndpointCollisions_owned_by_other [OF ex_readable,
        of "exAPI ''a'' (Some ''/x/'') (exCompute 1000 None 0)" "''/x''"]
    by simp
qed


section \<open>Absent routes\<close>

lemma groupEndpoints_Panic:
  "groupEndpoints apis m = Panic \<longleftrightarrow> (\<exists>a \<in> set apis. Endpoint a = None)"
  by (induction apis arbitrary: m) (auto split: option.splits)

lemma findDuplicateEndpoints_Panic:
  "findDuplicateEndpoints n apis = Panic \<longleftrightarrow> (\<exists>a \<in> set apis. Endpoint a = None)"
  using groupEndpoints_Panic [of apis "[]"]
  by (cases "groupEndpoints apis []") (auto simp add: findDuplicateEndpoints_def)

lemma validateEndpointCollisions_no_Panic:
  "Endpoint api = Some route \<Longrightarrow> validateEndpointCollisions api vss \<noteq> Panic"
proof (induction vss)
  case Nil
  show ?case by simp
next
  case (Cons vs vss)
  then show ?case
    by (auto simp add: collidesWithEndpoints_Some split: sum.splits go.splits option.splits)
qed

lemma validateEndpointCollisions_Panic:
  "Endpoint api = None \<Longrightarrow> onGateway vs \<Longrightarrow>
   ExtractVirtualServiceEndpoints vs = Inr (p # ps) \<Longrightarrow>
   validateEndpointCollisions api (vs # vss) = Panic"
  by (auto simp add: onGateway_def split: sum.splits)


text \<open>
  C10. The route pass dereferences every request's route: it panics exactly when some
  request of the batch has no route, and then the batch-level checks, once the name pass
  has found nothing, have no result. The collision check never panics for a request with
  a route; for a request without one it panics as soon as it meets a published endpoint
  on the ingress gateway.
\<close>

theorem absent_route_panics:
  "(findDuplicateEndpoints n apis = Panic \<longleftrightarrow> (\<exists>a \<in> set apis. Endpoint a = None)) \<and>
   ((\<exists>a \<in> set apis. Endpoint a = None) \<and> findDuplicateNames (namesFirst ord) apis = [] \<longrightarrow>
      checkDuplicates ord apis = Panic) \<and>
   (Endpoint api \<noteq> None \<longrightarrow> validateEndpointCollisions api vss \<noteq> Panic) \<and>
   (Endpoint api = None \<and> onGateway vs \<and> ExtractVirtualServiceEndpoints vs = Inr (p # ps) \<longrightarrow>
      validateEndpointCollisions api (vs # vss) = Panic)"
  using findDuplicateEndpoints_Panic [of n apis]
    findDuplicateEndpoints_Panic [of "endpointsFirst ord" apis]
    validateEndpointCollisions_no_Panic [of api _ vss]
    validateEndpointCollisions_Panic [of api vs p ps vss]
  by (auto simp add: checkDuplicates_def)

theorem absent_route_panics_witness:
  "findDuplicateEndpoints 0 [exC, exAPI ''d'' None (exCompute 1000 None 0)] = Panic \<and>
   checkDuplicates exOrder [exC, exAPI ''d'' None (exCompute 1000 None 0)] = Panic \<and>
   validateEndpointCollisions exC [exRoute ''a'' ''/x''] \<noteq> Panic \<and>
   validateEndpointCollisions (exAPI ''d'' None (exCompute 1000 None 0))
     [exRoute ''a'' ''/x''] = Panic"
proof -
  let ?d = "exAPI ''d'' None (exCompute 1000 None 0)"
  have h1: "\<exists>a \<in> set [exC, ?d]. Endpoint a = None"
    by (simp add: exAPI_def)
  have h2: "findDuplicateNames (namesFirst exOrder) [exC, ?d] = []"
    by (simp add: findDuplicateNames_def rangeFirst_def duplicateGroups_def exC_def exAPI_def)
  have h3: "Endpoint exC \<noteq> None"
    by (simp add: exC_def exAPI_def)
  have h4: "Endpoint ?d = None \<and> onGateway (exRoute ''a'' ''/x'') \<and>
      ExtractVirtualServiceEndpoints (exRoute ''a'' ''/x'') = Inr (''/x'' # [])"
    by (simp add: exAPI_def onGateway_def exRoute_def)
  show ?thesis
    using h1 h2 h3 h4
      absent_route_panics [where n = 0 and ord = exOrder and apis = "[exC, ?d]" and api = exC
        and vss = "[exRoute ''a'' ''/x'']"]
      absent_route_panics [where n = 0 and ord = exOrder and apis = "[exC, ?d]" and api = ?d
        and vss = "[]" and vs = "exRoute ''a'' ''/x''" and p = "''/x''" and ps = "[]"]
    by blast
qed

section \<open>The orchestrator\<close>

text \<open>
  C6. An empty batch is refused with the empty-batch error whatever the cluster holds,
  also when a cluster read would fail: nothing is fetched and no other check runs.
\<close>

theorem ValidateClusterAPIs_empty:
  "ValidateClusterAPIs V r ord [] pfm w = (Return (Some ErrorNoAPIs), w)"
  by (simp add: ValidateClusterAPIs_def)

theorem ValidateClusterAPIs_empty_witness:
  "ValidateClusterAPIs exValidateAPI exReserves exOrder [] Map.empty
     (exWorld\<lparr>K8s := \<lparr>ListVirtualServices = Inl ''unreachable'',
                       updateMemoryCapacityConfigMap = Inl ''unreachable'',
                       secondCompletesFirst = False\<rparr>\<rparr>) =
   (Return (Some ErrorNoAPIs),
    exWorld\<lparr>K8s := \<lparr>ListVirtualServices = Inl ''unreachable'',
                      updateMemoryCapacityConfigMap = Inl ''unreachable'',
                      secondCompletesFirst = False\<rparr>\<rparr>)"
  using ValidateClusterAPIs_empty by simp




section \<open>What a validation call writes\<close>

text \<open>
  C1. The available memory is not the same for every request of a batch. Each of the
  two requests \<open>exA\<close> and \<open>exB\<close> asks for exactly the memory left after the platform
  reservation and validates when submitted alone; submitted together, whichever comes
  second is refused for memory, because each call of \<^verbatim>\<open>validateCompute\<close> subtracts the
  reservation again from the quantity behind \<^verbatim>\<open>maxMem\<close>.
\<close>

theorem ValidateClusterAPIs_memory_drift:
  "fst (ValidateClusterAPIs exValidateAPI exReserves ord [exA] Map.empty exWorld) = Return None \<and>
   fst (ValidateClusterAPIs exValidateAPI exReserves ord [exB] Map.empty exWorld) = Return None \<and>
   fst (ValidateClusterAPIs exValidateAPI exReserves ord [exA, exB] Map.empty exWorld) =
     Return (Some (Wrap (ErrorNoAvailableNodeComputeLimit ''Memory'' 7680 7168)
                        [''b'', ''compute''])) \<and>
   fst (ValidateClusterAPIs exValidateAPI exReserves ord [exB, exA] Map.empty exWorld) =
     Return (Some (Wrap (ErrorNoAvailableNodeComputeLimit ''Memory'' 7680 7168)
                        [''a'', ''compute'']))"
  by (simp add: ex_defs run_defs)

text \<open>
  C8. A validation call writes a value that outlives it when the configured CPU quantity
  keeps its amount in an \<^verbatim>\<open>inf.Dec\<close>: \<^verbatim>\<open>maxCPU\<close> is a struct copy that points to the same
  object, so \<^verbatim>\<open>maxCPU.Sub\<close> lowers the configured amount itself. With 4000 configured and
  a platform reservation of 500, the configuration reads 3500 after a call on one
  request, whether the call succeeds or fails.
\<close>

theorem ValidateClusterAPIs_writes_config:
  "amountOf (Decs exDecWorld) (InstanceMetadata.CPU (InstanceMetadata (Cluster exDecWorld))) = 4000 \<and>
   fst (ValidateClusterAPIs exValidateAPI exReserves ord [exC] Map.empty exDecWorld) =
     Return None \<and>
   amountOf (Decs (snd (ValidateClusterAPIs exValidateAPI exReserves ord [exC] Map.empty exDecWorld)))
     (InstanceMetadata.CPU (InstanceMetadata (Cluster
        (snd (ValidateClusterAPIs exValidateAPI exReserves ord [exC] Map.empty exDecWorld))))) =
     3500 \<and>
   fst (ValidateClusterAPIs exValidateAPI exReserves ord [exBad] Map.empty exDecWorld) =
     Return (Some (Wrap (ErrorNoAvailableNodeComputeLimit ''CPU'' 9000 3500)
                        [''bad'', ''compute''])) \<and>
   amountOf (Decs (snd (ValidateClusterAPIs exValidateAPI exReserves ord [exBad] Map.empty exDecWorld)))
     (InstanceMetadata.CPU (InstanceMetadata (Cluster
        (snd (ValidateClusterAPIs exValidateAPI exReserves ord [exBad] Map.empty exDecWorld))))) =
     3500 \<and>
   snd (ValidateClusterAPIs exValidateAPI exReserves ord [exC] Map.empty exDecWorld) \<noteq> exDecWorld"
proof -
  have "Decs (snd (ValidateClusterAPIs exValidateAPI exReserves ord [exC] Map.empty exDecWorld)) 0
      \<noteq> Decs exDecWorld 0"
    by (simp add: ex_defs run_defs)
  then have "snd (ValidateClusterAPIs exValidateAPI exReserves ord [exC] Map.empty exDecWorld)
      \<noteq> exDecWorld"
    by auto
  then show ?thesis
    by (simp add: ex_defs run_defs)
qed

text \<open>
  When the configured CPU quantity keeps its amount in the struct, the copy shares nothing
  and the only object written is the memory quantity fetched inside the call.
\<close>

lemma reserved_int64:
  "InstanceMetadata.CPU (InstanceMetadata (config s)) = Int64Amount v \<Longrightarrow>
   config (reserved r s) = config s \<and> decs (reserved r s) = decs s"
  by (simp add: reserved_config reserved_decs)

lemma validateEach_int64:
  "InstanceMetadata.CPU (InstanceMetadata (config s)) = Int64Amount v \<Longrightarrow>
   config (snd (validateEach V r pfm vss apis s)) = config s \<and>
   decs (snd (validateEach V r pfm vss apis s)) = decs s"
proof (induction apis arbitrary: s)
  case Nil
  show ?case by simp
next
  case (Cons a apis)
  show ?case
  proof (cases "V a pfm")
    case (Some e)
    then show ?thesis by simp
  next
    case None
    have q: "InstanceMetadata.CPU (InstanceMetadata (config (reserved r s))) = Int64Amount v"
      using Cons.prems by (simp add: reserved_config)
    show ?thesis
    proof (cases "fst (ValidateK8s r a vss s) = Return None")
      case True
      then show ?thesis
        using validateEach_Cons_pass [of V a pfm r vss s apis] None Cons.IH [OF q]
          reserved_int64 [OF Cons.prems, of r]
        by simp
    next
      case False
      obtain out s' where k: "ValidateK8s r a vss s = (out, s')"
        by (cases "ValidateK8s r a vss s")
      have "s' = reserved r s"
        using ValidateK8s_state [of r a vss s] k by simp
      then show ?thesis
        using False None k reserved_int64 [OF Cons.prems, of r]
        by (simp split: go.splits option.splits)
    qed
  qed
qed

lemma ValidateClusterAPIs_int64_frame:
  assumes "InstanceMetadata.CPU (InstanceMetadata (Cluster w)) = Int64Amount v"
  shows "snd (ValidateClusterAPIs V r ord apis pfm w) = w"
proof (cases "length apis = 0")
  case True
  then show ?thesis by (simp add: ValidateClusterAPIs_def)
next
  case False
  show ?thesis
  proof (cases "getValidationK8sResources (K8s w)")
    case (Inl e)
    with False show ?thesis by (simp add: ValidateClusterAPIs_def)
  next
    case (Inr p)
    obtain vss m where p: "p = (vss, m)" by (cases p)
    let ?s = "\<lparr>config = Cluster w, maxMem = m, decs = Decs w\<rparr>"
    obtain out s' where e: "validateEach V r pfm vss apis ?s = (out, s')"
      by (cases "validateEach V r pfm vss apis ?s")
    have "config s' = Cluster w \<and> decs s' = Decs w"
      using validateEach_int64 [of ?s v V r pfm vss apis] assms e by simp
    then show ?thesis
      using False Inr p e
      by (simp add: ValidateClusterAPIs_def split: go.splits option.splits)
  qed
qed

end
